theory Spec2Isabelle
  imports Main
begin

section \<open>Go library functions used by \<open>cmd/root.go\<close>\<close>

text \<open>
  Go strings are byte sequences; they are modelled as \<open>string\<close> (a list of 8-bit
  \<open>char\<close>). The functions of this section are the Unix versions of the Go standard
  library functions that \<open>cmd/root.go\<close> calls, written from their documented behaviour.
\<close>

subsection \<open>Package strings\<close>

definition HasPrefix :: "string \<Rightarrow> string \<Rightarrow> bool" where
  "HasPrefix s prefix = (length s \<ge> length prefix \<and> take (length prefix) s = prefix)"

text \<open>
  \<open>unicode.IsSpace\<close> on the UTF-8 encoded input: \<open>spaceWidth s\<close> is the number of bytes
  of the white-space rune that starts \<open>s\<close>, and 0 when \<open>s\<close> does not start with one.
  The white-space runes are U+0009..U+000D, U+0020, U+0085, U+00A0, U+1680,
  U+2000..U+200A, U+2028, U+2029, U+202F, U+205F and U+3000. Each of their encodings
  starts with a byte that is no continuation byte, so looking for them byte by byte
  finds exactly the runes that decoding rune by rune finds.
\<close>

definition asciiSpace :: "char \<Rightarrow> bool" where
  "asciiSpace c = (c = CHR 0x09 \<or> c = CHR 0x0A \<or> c = CHR 0x0B \<or> c = CHR 0x0C
                   \<or> c = CHR 0x0D \<or> c = CHR 0x20)"

fun spaceWidth :: "string \<Rightarrow> nat" where
  "spaceWidth [] = 0"
| "spaceWidth (c # cs) =
     (if asciiSpace c then 1
      else if c = CHR 0xC2 then
        (case cs of
           d # _ \<Rightarrow> if d = CHR 0x85 \<or> d = CHR 0xA0 then 2 else 0
         | [] \<Rightarrow> 0)
      else if c = CHR 0xE1 then
        (if take 2 cs = [CHR 0x9A, CHR 0x80] then 3 else 0)
      else if c = CHR 0xE2 then
        (case cs of
           d # e # _ \<Rightarrow>
             if d = CHR 0x80 \<and> (of_char e \<in> {0x80..(0x8A::nat)} \<or> e = CHR 0xA8
                                \<or> e = CHR 0xA9 \<or> e = CHR 0xAF) then 3
             else if d = CHR 0x81 \<and> e = CHR 0x9F then 3
             else 0
         | _ \<Rightarrow> 0)
      else if c = CHR 0xE3 then
        (if take 2 cs = [CHR 0x80, CHR 0x80] then 3 else 0)
      else 0)"

text \<open>
  \<open>strings.Fields\<close>: the maximal runs of non-white-space bytes, in order. \<open>fieldsFrom\<close>
  carries the field being collected (reversed) and \<open>skip\<close>, the number of bytes of the
  current white-space rune still to pass over.
\<close>

fun flush :: "string \<Rightarrow> string list" where
  "flush cur = (if cur = [] then [] else [rev cur])"

fun fieldsFrom :: "string \<Rightarrow> nat \<Rightarrow> string \<Rightarrow> string list" where
  "fieldsFrom cur skip [] = flush cur"
| "fieldsFrom cur (Suc k) (c # cs) = fieldsFrom cur k cs"
| "fieldsFrom cur 0 (c # cs) =
     (case spaceWidth (c # cs) of
        0 \<Rightarrow> fieldsFrom (c # cur) 0 cs
      | Suc k \<Rightarrow> flush cur @ fieldsFrom [] k cs)"

definition Fields :: "string \<Rightarrow> string list" where
  "Fields s = fieldsFrom [] 0 s"

text \<open>\<open>strings.Join\<close>.\<close>

fun strings_Join :: "string list \<Rightarrow> string \<Rightarrow> string" where
  "strings_Join [] sep = []"
| "strings_Join [e] sep = e"
| "strings_Join (e # es) sep = e @ sep @ strings_Join es sep"

subsection \<open>Package path/filepath (Unix: the separator is the slash, no volume names)\<close>

definition Separator :: char where
  "Separator = CHR ''/''"

text \<open>
  The pieces of a string between the occurrences of a separator byte, empty ones
  included (\<open>strings.Split\<close> with a separator of one byte). The elements of a path are
  its pieces between slashes.
\<close>

fun splitOn :: "char \<Rightarrow> string \<Rightarrow> string list" where
  "splitOn sep [] = [[]]"
| "splitOn sep (c # cs) =
     (if c = sep then [] # splitOn sep cs
      else (case splitOn sep cs of
              e # es \<Rightarrow> (c # e) # es
            | [] \<Rightarrow> [[c]]))"

definition elements :: "string \<Rightarrow> string list" where
  "elements path = splitOn Separator path"

text \<open>
  \<open>filepath.Clean\<close>, element by element. \<open>out\<close> is the cleaned path so far, last element
  first. Empty elements and \<open>.\<close> are dropped; \<open>..\<close> removes the element before it when
  there is one that is not itself \<open>..\<close>, is dropped at the root of a rooted path, and is
  kept otherwise.
\<close>

fun cleanElements :: "bool \<Rightarrow> string list \<Rightarrow> string list \<Rightarrow> string list" where
  "cleanElements rooted out [] = rev out"
| "cleanElements rooted out (e # es) =
     (if e = [] \<or> e = ''.'' then cleanElements rooted out es
      else if e = ''..'' then
        (case out of
           [] \<Rightarrow> if rooted then cleanElements rooted [] es
                 else cleanElements rooted [''..''] es
         | p # ps \<Rightarrow> if p = ''..'' then cleanElements rooted (''..'' # out) es
                     else cleanElements rooted ps es)
      else cleanElements rooted (e # out) es)"

definition Clean :: "string \<Rightarrow> string" where
  "Clean path =
     (if path = [] then ''.''
      else
        let rooted = (hd path = Separator);
            body = strings_Join (cleanElements rooted [] (elements path)) [Separator]
        in if rooted then Separator # body
           else if body = [] then ''.'' else body)"

definition IsAbs :: "string \<Rightarrow> bool" where
  "IsAbs path = HasPrefix path [Separator]"

text \<open>\<open>filepath.Join\<close>: leading empty elements are ignored, the rest is joined and cleaned.\<close>

fun Join :: "string list \<Rightarrow> string" where
  "Join [] = []"
| "Join (e # es) = (if e = [] then Join es else Clean (strings_Join (e # es) [Separator]))"

text \<open>\<open>filepath.Base\<close>: the last element of the path, trailing separators removed first.\<close>

definition Base :: "string \<Rightarrow> string" where
  "Base path =
     (if path = [] then ''.''
      else
        let stripped = rev (dropWhile (\<lambda>c. c = Separator) (rev path));
            last_elem = rev (takeWhile (\<lambda>c. c \<noteq> Separator) (rev stripped))
        in if last_elem = [] then [Separator] else last_elem)"

text \<open>\<open>filepath.Dir\<close>: everything up to the last separator, cleaned.\<close>

definition Dir :: "string \<Rightarrow> string" where
  "Dir path = Clean (rev (dropWhile (\<lambda>c. c \<noteq> Separator) (rev path)))"

subsection \<open>Package fmt\<close>

text \<open>
  \<open>fmt.Sprintf\<close> for string operands. The verbs \<open>%s\<close> and \<open>%v\<close> print the next operand
  as it is and \<open>%%\<close> prints a percent sign; a verb without an operand prints
  \<open>%!s(MISSING)\<close>, a percent sign at the end prints \<open>%!(NOVERB)\<close>, and operands left over
  are reported at the end. Any other verb is printed as a bad verb for a string; flags
  and widths are not modelled (the program uses \<open>%s\<close> and \<open>%v\<close> only).
\<close>

fun extraOperands :: "string list \<Rightarrow> string" where
  "extraOperands [] = []"
| "extraOperands [a] = ''string='' @ a"
| "extraOperands (a # as) = ''string='' @ a @ '', '' @ extraOperands as"

fun Sprintf :: "string \<Rightarrow> string list \<Rightarrow> string" where
  "Sprintf [] args = (if args = [] then [] else ''%!(EXTRA '' @ extraOperands args @ '')'')"
| "Sprintf [c] args = (if c = CHR ''%'' then ''%!(NOVERB)'' else [c]) @ Sprintf [] args"
| "Sprintf (c # v # rest) args =
     (if c \<noteq> CHR ''%'' then c # Sprintf (v # rest) args
      else if v = CHR ''%'' then CHR ''%'' # Sprintf rest args
      else (case args of
              [] \<Rightarrow> ''%!'' @ [v] @ ''(MISSING)'' @ Sprintf rest []
            | a # as \<Rightarrow>
                (if v = CHR ''s'' \<or> v = CHR ''v'' then a
                 else ''%!'' @ [v] @ ''(string='' @ a @ '')'') @ Sprintf rest as))"

subsection \<open>Errors\<close>

text \<open>
  A Go \<open>error\<close> value. \<open>Errorf fmt ops\<close> is the error made by \<open>fmt.Errorf\<close> from a format
  string and its error operands.
\<close>

datatype go_error =
    OSError string
  | ErrTooLong
  | ExitError int
  | ExecError string
  | ArgCountError nat nat
  | Errorf string "go_error list"

subsection \<open>Package bufio: a Scanner with the default split function ScanLines\<close>

text \<open>
  An opened file, as its reader sees it: the bytes that \<open>Read\<close> delivers and the way the
  stream ends, \<open>None\<close> for end of file and \<open>Some e\<close> for a read error \<open>e\<close>.
\<close>

datatype os_file = File (contents: string) (fault: "go_error option")

definition MaxScanTokenSize :: nat where
  "MaxScanTokenSize = 64 * 1024"

definition dropCR :: "string \<Rightarrow> string" where
  "dropCR data = (if data \<noteq> [] \<and> last data = CHR 0x0D then butlast data else data)"

text \<open>
  All the tokens that successive calls of \<open>Scan\<close> return, and the value of \<open>Err\<close> once \<open>Scan\<close>
  has returned false. A line ends at a newline or at the end of the input, and one
  trailing carriage return is dropped from it; an empty rest at the end of the input is
  no line. A line whose bytes fill the buffer (\<open>MaxScanTokenSize\<close>) before its newline is
  seen stops the scan with \<open>ErrTooLong\<close>. \<open>cur\<close> is the line being read, reversed.
\<close>

fun scanFrom :: "string \<Rightarrow> string \<Rightarrow> go_error option \<Rightarrow> string list \<times> go_error option" where
  "scanFrom cur [] end_err =
     (if length cur \<ge> MaxScanTokenSize then ([], Some ErrTooLong)
      else if cur = [] then ([], end_err)
      else ([dropCR (rev cur)], end_err))"
| "scanFrom cur (c # cs) end_err =
     (if length cur \<ge> MaxScanTokenSize then ([], Some ErrTooLong)
      else if c = CHR 0x0A then
        (case scanFrom [] cs end_err of (ls, e) \<Rightarrow> (dropCR (rev cur) # ls, e))
      else scanFrom (c # cur) cs end_err)"

definition Scanner :: "os_file \<Rightarrow> string list \<times> go_error option" where
  "Scanner f = scanFrom [] (contents f) (fault f)"

section \<open>The environment of the program\<close>

text \<open>
  What the program does to its environment is recorded as a trace of events: the
  subprocesses it runs (argument vector and working directory), the files it writes
  (name, data, permission bits) and the calls of the logger.
\<close>

datatype event =
    Exec "string list" string
  | Write string string nat
  | LogErrorf string go_error
  | LogInfof string string
  | LogInfo string
  | Panic string

text \<open>
  How the run of an external command ends: the program is not found on the search path,
  the process cannot be started, or it runs and exits with a status.
\<close>

datatype proc_outcome = NotFound string | NotStarted string | Exited int

text \<open>
  The environment: what \<open>os.Open\<close> gives for each name, the names that cannot be written,
  the environment variables, the result of \<open>os.Getwd\<close>, how each external command ends,
  the package-level variable \<open>installFlag\<close>, the exit status once the process has been
  terminated, and the trace so far. Every command of a run has its own argument vector,
  so an outcome per argument vector is an outcome per invocation. What a subprocess
  does to the file system is outside the model: the program never reads a file after
  it has run one.
\<close>

record world =
  files :: "string \<Rightarrow> go_error + os_file"
  unwritable :: "string \<rightharpoonup> go_error"
  environ :: "string \<rightharpoonup> string"
  workdir :: "go_error + string"
  outcome :: "string list \<Rightarrow> proc_outcome"
  installFlag :: bool
  exit_code :: "int option"
  trace :: "event list"

definition emit :: "event \<Rightarrow> world \<Rightarrow> world" where
  "emit e w = w\<lparr>trace := trace w @ [e]\<rparr>"

definition os_Open :: "string \<Rightarrow> world \<Rightarrow> go_error + os_file" where
  "os_Open name w = files w name"

definition os_Getenv :: "string \<Rightarrow> world \<Rightarrow> string" where
  "os_Getenv key w = (case environ w key of None \<Rightarrow> [] | Some v \<Rightarrow> v)"

text \<open>
  \<open>os.WriteFile\<close>: the file holds the data afterwards, unless the name cannot be
  written; then the error is returned.
\<close>

definition os_WriteFile :: "string \<Rightarrow> string \<Rightarrow> nat \<Rightarrow> world \<Rightarrow> go_error option \<times> world" where
  "os_WriteFile name data perm w =
     (case unwritable w name of
        Some e \<Rightarrow> (Some e, emit (Write name data perm) w)
      | None \<Rightarrow> (None, emit (Write name data perm)
                         (w\<lparr>files := (files w)(name := Inr (File data None))\<rparr>)))"

definition os_Exit :: "int \<Rightarrow> world \<Rightarrow> world" where
  "os_Exit code w = w\<lparr>exit_code := Some code\<rparr>"

text \<open>\<open>filepath.Abs\<close>: an absolute path is cleaned, a relative one is joined to the working directory.\<close>

definition Abs :: "string \<Rightarrow> world \<Rightarrow> go_error + string" where
  "Abs path w =
     (if IsAbs path then Inr (Clean path)
      else (case workdir w of
              Inl err \<Rightarrow> Inl err
            | Inr wd \<Rightarrow> Inr (Join [wd, path])))"

text \<open>
  The error of \<open>cmd.Run\<close> for each way the run of a command ends: none when the process
  exits with status 0, an \<open>ExitError\<close> with the status when it exits otherwise, and
  another error, without a status, when the program is not found or the process cannot
  be started.
\<close>

fun runError :: "proc_outcome \<Rightarrow> go_error option" where
  "runError (Exited status) = (if status = 0 then None else Some (ExitError status))"
| "runError (NotStarted msg) = Some (ExecError msg)"
| "runError (NotFound msg) = Some (ExecError msg)"

text \<open>
  \<open>exec.Command\<close> looks the program up and keeps the error of the lookup; \<open>Start\<close> returns
  that error before it does anything else.
\<close>

fun lookPathError :: "proc_outcome \<Rightarrow> go_error option" where
  "lookPathError (NotFound msg) = Some (ExecError msg)"
| "lookPathError (NotStarted msg) = None"
| "lookPathError (Exited status) = None"

text \<open>
  With a working directory \<open>Dir\<close> that is not empty (and no \<open>Env\<close>), \<open>Start\<close> computes
  \<open>filepath.Abs(Dir)\<close> for the variable \<open>PWD\<close> of the child before it starts the process,
  and returns the error of that call: the process is then not started.
\<close>

definition dirError :: "string \<Rightarrow> world \<Rightarrow> go_error option" where
  "dirError dir w =
     (if dir = [] then None
      else (case Abs dir w of Inl err \<Rightarrow> Some err | Inr pwd \<Rightarrow> None))"

text \<open>
  \<open>exec.Command(argv...)\<close> with \<open>Dir = dir\<close>, then \<open>Run\<close>: the error of the lookup, else the
  error of resolving the working directory, else the error of starting and waiting
  for the process. The event records the attempt.
\<close>

definition Run :: "string list \<Rightarrow> string \<Rightarrow> world \<Rightarrow> go_error option \<times> world" where
  "Run argv dir w =
     ((case lookPathError (outcome w argv) of
         Some err \<Rightarrow> Some err
       | None \<Rightarrow>
           (case dirError dir w of
              Some err \<Rightarrow> Some err
            | None \<Rightarrow> runError (outcome w argv))),
      emit (Exec argv dir) w)"

section \<open>The program: \<open>cmd/root.go\<close>\<close>

subsection \<open>getModuleName\<close>

text \<open>
  The loop over the lines of the scanner: \<open>Some name\<close> when the loop returns a name,
  \<open>None\<close> when it runs to the end of the lines.
\<close>

fun scanModule :: "string list \<Rightarrow> string option" where
  "scanModule [] = None"
| "scanModule (line # rest) =
     (if HasPrefix line ''module'' then
        (let parts = Fields line
         in if length parts \<ge> 2 then Some (Base (parts ! 1)) else scanModule rest)
      else scanModule rest)"

definition getModuleName :: "string \<Rightarrow> world \<Rightarrow> go_error + string" where
  "getModuleName projectPath w =
     (let goModFile = Join [projectPath, ''go.mod'']
      in case os_Open goModFile w of
           Inl err \<Rightarrow> Inl (Errorf ''failed to open go.mod file: %v'' [err])
         | Inr file \<Rightarrow>
             (case Scanner file of
                (lines, scan_err) \<Rightarrow>
                  (case scanModule lines of
                     Some name \<Rightarrow> Inr name
                   | None \<Rightarrow>
                       (case scan_err of
                          Some err \<Rightarrow> Inl (Errorf ''failed to read go.mod file: %v'' [err])
                        | None \<Rightarrow> Inl (Errorf ''module name not found in go.mod'' [])))))"

subsection \<open>buildGoProject\<close>

definition buildGoProject :: "string \<Rightarrow> string \<Rightarrow> world \<Rightarrow> (go_error + string) \<times> world" where
  "buildGoProject projectPath binaryName w =
     (let binaryPath = Join [projectPath, binaryName]
      in case Run [''go'', ''build'', ''-o'', binaryPath, projectPath] projectPath w of
           (Some err, w1) \<Rightarrow> (Inl err, w1)
         | (None, w1) \<Rightarrow>
             (case Abs binaryPath w1 of
                Inl err \<Rightarrow> (Inl (Errorf ''failed to get absolute path of binary: %v'' [err]), w1)
              | Inr absBinaryPath \<Rightarrow> (Inr absBinaryPath, w1)))"

subsection \<open>generateServiceFile\<close>

definition serviceTemplate :: string where
  "serviceTemplate =
     ''[Unit]\<newline>'' @
     ''Description=vortex.studio/%s Service\<newline>'' @
     ''After=network.target\<newline>'' @
     ''\<newline>'' @
     ''[Service]\<newline>'' @
     ''ExecStart=%s\<newline>'' @
     ''Restart=always\<newline>'' @
     ''User=%s\<newline>'' @
     ''WorkingDirectory=%s\<newline>'' @
     ''RestartSec=10\<newline>'' @
     ''\<newline>'' @
     ''[Install]\<newline>'' @
     ''WantedBy=multi-user.target\<newline>''"

definition serviceContent :: "string \<Rightarrow> string \<Rightarrow> world \<Rightarrow> string" where
  "serviceContent binaryPath serviceName w =
     Sprintf serviceTemplate [serviceName, binaryPath, os_Getenv ''USER'' w, Dir binaryPath]"

text \<open>The result of \<open>os.WriteFile\<close> is dropped: the function returns nothing.\<close>

definition generateServiceFile :: "string \<Rightarrow> string \<Rightarrow> string \<Rightarrow> world \<Rightarrow> world" where
  "generateServiceFile servicePath binaryPath serviceName w =
     snd (os_WriteFile servicePath (serviceContent binaryPath serviceName w) 420 w)"

subsection \<open>copyServiceToSystemd\<close>

definition copyServiceToSystemd :: "string \<Rightarrow> string \<Rightarrow> world \<Rightarrow> world" where
  "copyServiceToSystemd serviceFilePath serviceName w =
     (let systemdPath = Sprintf ''/etc/systemd/system/%s.service'' [serviceName]
      in case Run [''sudo'', ''cp'', serviceFilePath, systemdPath] [] w of
           (Some err, w1) \<Rightarrow> emit (LogErrorf ''Failed to copy service file to systemd: %v'' err) w1
         | (None, w1) \<Rightarrow>
             (let w2 = emit (LogInfof ''Service file copied to: %v'' systemdPath) w1
              in case Run [''sudo'', ''systemctl'', ''daemon-reload''] [] w2 of
                   (Some err, w3) \<Rightarrow> emit (LogErrorf ''Failed to reload systemd daemon: %v'' err) w3
                 | (None, w3) \<Rightarrow>
                     (case Run [''sudo'', ''systemctl'', ''enable'',
                                Sprintf ''%s.service'' [serviceName]] [] w3 of
                        (Some err, w4) \<Rightarrow> emit (LogErrorf ''Failed to enable service: %v'' err) w4
                      | (None, w4) \<Rightarrow>
                          (case Run [''sudo'', ''systemctl'', ''start'',
                                     Sprintf ''%s.service'' [serviceName]] [] w4 of
                             (Some err, w5) \<Rightarrow>
                               emit (LogErrorf ''Failed to start service: %v'' err) w5
                           | (None, w5) \<Rightarrow>
                               emit (LogInfo ''Service enabled and started successfully.'') w5))))"

subsection \<open>runProjectSetup\<close>

text \<open>
  \<open>args[0]\<close> panics on an empty argument list; an unrecovered panic ends a Go process
  with status 2.
\<close>

definition runProjectSetup :: "string list \<Rightarrow> world \<Rightarrow> world" where
  "runProjectSetup args w =
     (case args of
        [] \<Rightarrow> os_Exit 2 (emit (Panic ''index out of range [0] with length 0'') w)
      | projectPath # _ \<Rightarrow>
          (case getModuleName projectPath w of
             Inl err \<Rightarrow> emit (LogErrorf ''Error: %v'' err) w
           | Inr moduleName \<Rightarrow>
               (let binaryName = moduleName
                in case buildGoProject projectPath binaryName w of
                     (Inl err, w1) \<Rightarrow> emit (LogErrorf ''Failed to build the Go project: %v'' err) w1
                   | (Inr binaryPath, w1) \<Rightarrow>
                       (let serviceFilePath = Join [projectPath, Sprintf ''%s.service'' [binaryName]];
                            w2 = generateServiceFile serviceFilePath binaryPath binaryName w1;
                            w3 = emit (LogInfof ''Service file created at: %v'' serviceFilePath) w2
                        in if installFlag w3 then copyServiceToSystemd serviceFilePath binaryName w3
                           else w3))))"

subsection \<open>rootCmd and Execute\<close>

text \<open>
  What the command-line library makes of the process arguments before it looks at the
  fields of \<open>rootCmd\<close>: an error (an unknown flag, a flag with a bad value), a request for
  the help text, or the value of the \<open>install\<close> flag with the positional arguments.
\<close>

datatype cmdline = FlagError go_error | HelpRequested | Parsed bool "string list"

text \<open>\<open>cobra.ExactArgs(n)\<close>.\<close>

definition ExactArgs :: "nat \<Rightarrow> string list \<Rightarrow> go_error option" where
  "ExactArgs n args = (if length args \<noteq> n then Some (ArgCountError n (length args)) else None)"

text \<open>
  \<open>rootCmd.Execute()\<close> with \<open>Args: cobra.ExactArgs(1)\<close> and \<open>Run: runProjectSetup\<close>. The flag
  is bound to \<open>installFlag\<close>. \<open>Run\<close> returns no error, so none comes back from the run.
\<close>

definition rootCmd_Execute :: "cmdline \<Rightarrow> world \<Rightarrow> go_error option \<times> world" where
  "rootCmd_Execute cl w =
     (case cl of
        FlagError err \<Rightarrow> (Some err, w)
      | HelpRequested \<Rightarrow> (None, w)
      | Parsed install args \<Rightarrow>
          (case ExactArgs 1 args of
             Some err \<Rightarrow> (Some err, w\<lparr>installFlag := install\<rparr>)
           | None \<Rightarrow> (None, runProjectSetup args (w\<lparr>installFlag := install\<rparr>))))"

definition Execute :: "cmdline \<Rightarrow> world \<Rightarrow> world" where
  "Execute cl w =
     (case rootCmd_Execute cl w of
        (Some err, w1) \<Rightarrow> os_Exit 1 (emit (LogErrorf ''%v'' err) w1)
      | (None, w1) \<Rightarrow> w1)"

section \<open>Notions used to state the properties\<close>

subsection \<open>Lines of the manifest\<close>

text \<open>A line that the loop of \<open>getModuleName\<close> returns from: it begins with the keyword and has two fields or more.\<close>

definition moduleLine :: "string \<Rightarrow> bool" where
  "moduleLine line = (HasPrefix line ''module'' \<and> length (Fields line) \<ge> 2)"

text \<open>
  The resolver as the specification words it: the first line whose first
  white-space-delimited token equals the keyword, and the final path segment of the
  second token of that line.
\<close>

definition firstToken :: "string \<Rightarrow> string option" where
  "firstToken line = (case Fields line of [] \<Rightarrow> None | t # _ \<Rightarrow> Some t)"

definition keywordLine :: "string \<Rightarrow> bool" where
  "keywordLine line = (firstToken line = Some ''module'')"

definition specModuleName :: "string list \<Rightarrow> string option" where
  "specModuleName ls =
     (case find keywordLine ls of
        None \<Rightarrow> None
      | Some line \<Rightarrow> (case Fields line of t # u # _ \<Rightarrow> Some (Base u) | _ \<Rightarrow> None))"

subsection \<open>Example environments\<close>

definition no_files :: "string \<Rightarrow> go_error + os_file" where
  "no_files name = Inl (OSError ''no such file or directory'')"

definition exits :: "int \<Rightarrow> string list \<Rightarrow> proc_outcome" where
  "exits status argv = Exited status"

text \<open>
  An environment whose only file is \<open>proj/go.mod\<close>, with the given bytes and the given end
  of its stream; the user is \<open>dev\<close>, the working directory \<open>/home/dev\<close>, and every command
  exits with status 0.
\<close>

definition manifest_world :: "string \<Rightarrow> go_error option \<Rightarrow> world" where
  "manifest_world bytes end_err =
     \<lparr>files = no_files(''proj/go.mod'' := Inr (File bytes end_err)),
      unwritable = Map.empty,
      environ = [''USER'' \<mapsto> ''dev''],
      workdir = Inr ''/home/dev'',
      outcome = exits 0,
      installFlag = False,
      exit_code = None,
      trace = []\<rparr>"

subsection \<open>The text of the descriptor\<close>

text \<open>The lines of a text: its pieces between newlines.\<close>

definition text_lines :: "string \<Rightarrow> string list" where
  "text_lines s = splitOn (CHR 0x0A) s"

text \<open>The number of positions of a text at which a given string starts.\<close>

fun occurrences :: "string \<Rightarrow> string \<Rightarrow> nat" where
  "occurrences sub [] = (if sub = [] then 1 else 0)"
| "occurrences sub (c # cs) = (if HasPrefix (c # cs) sub then 1 else 0) + occurrences sub cs"

text \<open>The environment \<open>manifest_world\<close> of an empty manifest, with no variable \<open>USER\<close>.\<close>

definition no_user_world :: world where
  "no_user_world = (manifest_world [] None)\<lparr>environ := Map.empty\<rparr>"



subsection \<open>Subprocesses in a trace\<close>

text \<open>The argument vectors of the subprocesses of a trace, in order.\<close>

fun execs :: "event list \<Rightarrow> string list list" where
  "execs [] = []"
| "execs (Exec argv dir # t) = argv # execs t"
| "execs (e # t) = execs t"

text \<open>A privileged invocation: a subprocess whose program is \<open>sudo\<close>.\<close>

fun privileged :: "event \<Rightarrow> bool" where
  "privileged (Exec argv dir) = (case argv of [] \<Rightarrow> False | prog # _ \<Rightarrow> prog = ''sudo'')"
| "privileged e = False"

text \<open>
  The four commands of the installer, in the order of its states: copy, reload, enable,
  start; and the message logged when each of them fails.
\<close>

definition installCommands :: "string \<Rightarrow> string \<Rightarrow> string list list" where
  "installCommands serviceFilePath serviceName =
     [[''sudo'', ''cp'', serviceFilePath, ''/etc/systemd/system/'' @ serviceName @ ''.service''],
      [''sudo'', ''systemctl'', ''daemon-reload''],
      [''sudo'', ''systemctl'', ''enable'', serviceName @ ''.service''],
      [''sudo'', ''systemctl'', ''start'', serviceName @ ''.service'']]"

definition installFailureMessages :: "string list" where
  "installFailureMessages =
     [''Failed to copy service file to systemd: %v'',
      ''Failed to reload systemd daemon: %v'',
      ''Failed to enable service: %v'',
      ''Failed to start service: %v'']"

text \<open>
  Of a list of commands, those that are run when each is run only after all the
  commands before it have succeeded: the commands up to the first that fails, that one
  included.
\<close>

fun attempted :: "(string list \<Rightarrow> proc_outcome) \<Rightarrow> string list list \<Rightarrow> string list list" where
  "attempted oc [] = []"
| "attempted oc (c # cs) = c # (if runError (oc c) = None then attempted oc cs else [])"

text \<open>The error of the command-line setup: a flag error, or a wrong number of arguments.\<close>

fun setupError :: "cmdline \<Rightarrow> go_error option" where
  "setupError (FlagError err) = Some err"
| "setupError HelpRequested = None"
| "setupError (Parsed install args) = ExactArgs 1 args"

text \<open>
  The environment of the manifest \<open>module example.com/foo/bar\<close> in which enabling the
  service fails with status 1, and the one in which the service file cannot be written.
\<close>

definition enable_fails_world :: world where
  "enable_fails_world =
     (manifest_world ''module example.com/foo/bar\<newline>'' None)
       \<lparr>outcome := (exits 0)([''sudo'', ''systemctl'', ''enable'', ''bar.service'']
                       := Exited 1)\<rparr>"

definition read_only_world :: world where
  "read_only_world =
     (manifest_world ''module example.com/foo/bar\<newline>'' None)
       \<lparr>unwritable := [''proj/bar.service'' \<mapsto> OSError ''permission denied'']\<rparr>"

subsection \<open>Cleaned paths\<close>



section \<open>Properties of getModuleName\<close>

lemma scanModule_find:
  "scanModule ls = map_option (\<lambda>line. Base (Fields line ! 1)) (find moduleLine ls)"
  by (induction ls) (simp_all add: moduleLine_def Let_def)

lemma scanModule_only_prefixed:
  "scanModule (filter (\<lambda>line. HasPrefix line ''module'') ls) = scanModule ls"
  by (induction ls) (simp_all add: Let_def)

lemma Join_proj_manifest: "Join [''proj'', ''go.mod''] = ''proj/go.mod''"
  by code_simp

lemma os_Open_manifest_world:
  "os_Open (Join [''proj'', ''go.mod'']) (manifest_world bytes end_err) = Inr (File bytes end_err)"
  unfolding Join_proj_manifest by (simp add: os_Open_def manifest_world_def)

lemma find_append_none:
  "\<forall>x\<in>set xs. \<not> P x \<Longrightarrow> find P (xs @ ys) = find P ys"
  by (induction xs) simp_all

lemma getModuleName_unfold:
  "getModuleName projectPath w =
     (case os_Open (Join [projectPath, ''go.mod'']) w of
        Inl err \<Rightarrow> Inl (Errorf ''failed to open go.mod file: %v'' [err])
      | Inr f \<Rightarrow>
          (case find moduleLine (fst (Scanner f)) of
             Some line \<Rightarrow> Inr (Base (Fields line ! 1))
           | None \<Rightarrow>
               (case snd (Scanner f) of
                  Some err \<Rightarrow> Inl (Errorf ''failed to read go.mod file: %v'' [err])
                | None \<Rightarrow> Inl (Errorf ''module name not found in go.mod'' []))))"
  by (auto simp add: getModuleName_def Let_def scanModule_find simp del: Join.simps
        split: sum.split prod.split option.split)

lemmas scan_eval = Scanner_def MaxScanTokenSize_def dropCR_def

lemma scanFrom_too_long:
  assumes "c \<noteq> CHR 0x0A"
  shows "MaxScanTokenSize \<le> length cur + n \<Longrightarrow>
    scanFrom cur (replicate n c) end_err = ([], Some ErrTooLong)"
proof (induction n arbitrary: cur)
  case 0
  then show ?case by simp
next
  case (Suc n)
  show ?case
  proof (cases "MaxScanTokenSize \<le> length cur")
    case True
    then show ?thesis by simp
  next
    case False
    moreover have "scanFrom (c # cur) (replicate n c) end_err = ([], Some ErrTooLong)"
      using Suc.prems by (intro Suc.IH) simp
    ultimately show ?thesis
      using assms by simp
  qed
qed

lemma getModuleName_scanned:
  assumes "os_Open (Join [projectPath, ''go.mod'']) w = Inr f"
    and "Scanner f = (ls, end_err)"
  shows "getModuleName projectPath w =
     (case find moduleLine ls of
        Some line \<Rightarrow> Inr (Base (Fields line ! 1))
      | None \<Rightarrow>
          (case end_err of
             Some err \<Rightarrow> Inl (Errorf ''failed to read go.mod file: %v'' [err])
           | None \<Rightarrow> Inl (Errorf ''module name not found in go.mod'' [])))"
  by (simp only: getModuleName_unfold assms sum.case fst_conv snd_conv)

text \<open>
  Claim C2, as stated, fails. The claim says that the resolver uses the first line
  whose first white-space-delimited token equals \<open>module\<close>. The code tests the bytes at
  the start of the line instead: on the manifest \<open>modulex a/b\<close> the first token is
  \<open>modulex\<close>, no line has the keyword as its first token, and the resolver returns \<open>b\<close>;
  on the manifest \<open>  module a/b\<close> (leading blanks) the first token is the keyword and
  the resolver finds no module name.
\<close>

theorem getModuleName_first_token_counterexample:
  "getModuleName ''proj'' (manifest_world ''modulex a/b\<newline>'' None) = Inr ''b''
   \<and> Scanner (File ''modulex a/b\<newline>'' None) = ([''modulex a/b''], None)
   \<and> firstToken ''modulex a/b'' = Some ''modulex''
   \<and> specModuleName [''modulex a/b''] = None
   \<and> getModuleName ''proj'' (manifest_world ''  module a/b\<newline>'' None)
       = Inl (Errorf ''module name not found in go.mod'' [])
   \<and> Scanner (File ''  module a/b\<newline>'' None) = ([''  module a/b''], None)
   \<and> specModuleName [''  module a/b''] = Some ''b''"
proof -
  have s1: "Scanner (File ''modulex a/b\<newline>'' None) = ([''modulex a/b''], None)"
    by (simp add: scan_eval)
  have f1: "find moduleLine [''modulex a/b''] = Some ''modulex a/b''"
    by code_simp
  have b1: "Base (Fields ''modulex a/b'' ! 1) = ''b''"
    by code_simp
  have r1: "getModuleName ''proj'' (manifest_world ''modulex a/b\<newline>'' None) = Inr ''b''"
    by (simp only: getModuleName_scanned [OF os_Open_manifest_world s1] f1 b1 option.case)
  have t1: "firstToken ''modulex a/b'' = Some ''modulex''"
    by code_simp
  have p1: "specModuleName [''modulex a/b''] = None"
    by code_simp
  have s2: "Scanner (File ''  module a/b\<newline>'' None) = ([''  module a/b''], None)"
    by (simp add: scan_eval)
  have f2: "find moduleLine [''  module a/b''] = None"
    by code_simp
  have r2: "getModuleName ''proj'' (manifest_world ''  module a/b\<newline>'' None)
       = Inl (Errorf ''module name not found in go.mod'' [])"
    by (simp only: getModuleName_scanned [OF os_Open_manifest_world s2] f2 option.case)
  have p2: "specModuleName [''  module a/b''] = Some ''b''"
    by code_simp
  show ?thesis
    by (intro conjI) (fact r1 s1 t1 p1 r2 s2 p2)+
qed

text \<open>
  Claim C2, amended: when the manifest opens, the resolver returns \<open>filepath.Base\<close> of
  the second white-space-delimited token of the first line, among those the scanner
  delivers, that begins with the bytes \<open>module\<close> and has two tokens or more; when there
  is no such line it fails, with the read error if the scan stopped on one and with
  the missing-declaration error otherwise. Lines that do not begin with \<open>module\<close> are
  never used: removing them changes nothing.
\<close>

theorem getModuleName_first_module_line:
  "getModuleName projectPath w =
     (case os_Open (Join [projectPath, ''go.mod'']) w of
        Inl err \<Rightarrow> Inl (Errorf ''failed to open go.mod file: %v'' [err])
      | Inr f \<Rightarrow>
          (case find moduleLine (fst (Scanner f)) of
             Some line \<Rightarrow> Inr (Base (Fields line ! 1))
           | None \<Rightarrow>
               (case snd (Scanner f) of
                  Some err \<Rightarrow> Inl (Errorf ''failed to read go.mod file: %v'' [err])
                | None \<Rightarrow> Inl (Errorf ''module name not found in go.mod'' []))))
   \<and> scanModule (filter (\<lambda>line. HasPrefix line ''module'') ls) = scanModule ls"
  by (rule conjI [OF getModuleName_unfold scanModule_only_prefixed])

text \<open>
  Claim C3, as stated, fails: a manifest that contains the line
  \<open>module example.com/foo/bar\<close> does not always resolve to \<open>bar\<close>. When an earlier line
  is already a module line, that line wins: here the resolver returns \<open>b\<close>.
\<close>

theorem getModuleName_example_counterexample:
  "getModuleName ''proj''
     (manifest_world ''module a/b\<newline>module example.com/foo/bar\<newline>'' None) = Inr ''b''
   \<and> Scanner (File ''module a/b\<newline>module example.com/foo/bar\<newline>'' None)
       = ([''module a/b'', ''module example.com/foo/bar''], None)"
proof -
  have s: "Scanner (File ''module a/b\<newline>module example.com/foo/bar\<newline>'' None)
       = ([''module a/b'', ''module example.com/foo/bar''], None)"
    by (simp add: scan_eval)
  have f: "find moduleLine [''module a/b'', ''module example.com/foo/bar''] = Some ''module a/b''"
    by code_simp
  have b: "Base (Fields ''module a/b'' ! 1) = ''b''"
    by code_simp
  have "getModuleName ''proj''
     (manifest_world ''module a/b\<newline>module example.com/foo/bar\<newline>'' None) = Inr ''b''"
    by (simp only: getModuleName_scanned [OF os_Open_manifest_world s] f b option.case)
  then show ?thesis
    using s by (rule conjI)
qed

text \<open>
  Claim C3, amended: when the scanner delivers the line
  \<open>module example.com/foo/bar\<close> and no line before it begins with \<open>module\<close> and has two
  tokens or more, the resolver succeeds and returns exactly \<open>bar\<close>.
\<close>

theorem getModuleName_example_line:
  assumes "os_Open (Join [projectPath, ''go.mod'']) w = Inr f"
    and "fst (Scanner f) = before @ ''module example.com/foo/bar'' # after"
    and "\<forall>line\<in>set before. \<not> moduleLine line"
  shows "getModuleName projectPath w = Inr ''bar''"
proof -
  have line: "moduleLine ''module example.com/foo/bar''"
    by code_simp
  have name: "Base (Fields ''module example.com/foo/bar'' ! 1) = ''bar''"
    by code_simp
  have "find moduleLine (before @ ''module example.com/foo/bar'' # after)
          = find moduleLine (''module example.com/foo/bar'' # after)"
    using assms(3) by (rule find_append_none)
  also have "\<dots> = Some ''module example.com/foo/bar''"
    using line by (simp only: find.simps if_True)
  finally have "find moduleLine (fst (Scanner f)) = Some ''module example.com/foo/bar''"
    by (simp only: assms(2))
  then show ?thesis
    by (simp only: getModuleName_unfold assms(1) sum.case option.case name)
qed

theorem getModuleName_example_line_witness:
  "getModuleName ''proj''
     (manifest_world ''// demo\<newline>module example.com/foo/bar\<newline>\<newline>go 1.22\<newline>'' None)
   = Inr ''bar''"
proof -
  let ?bytes = "''// demo\<newline>module example.com/foo/bar\<newline>\<newline>go 1.22\<newline>''"
  have h2: "fst (Scanner (File ?bytes None))
              = [''// demo''] @ ''module example.com/foo/bar'' # [[], ''go 1.22'']"
    by (simp add: scan_eval)
  have h3: "\<forall>line\<in>set [''// demo'']. \<not> moduleLine line"
    by code_simp
  show ?thesis
    by (rule getModuleName_example_line [OF os_Open_manifest_world h2 h3])
qed

text \<open>
  Claim C9, as stated, fails in its last part: when no line with two tokens exists,
  the resolver does not always fail with the missing-declaration error. It fails with
  the read error when the scan stops on one: here the manifest is the single line
  \<open>module\<close> and reading it ends in an input/output error; and here the line \<open>module\<close> is
  followed by a line of 65536 bytes, too long for the scanner.
\<close>

theorem getModuleName_short_line_counterexample:
  "getModuleName ''proj'' (manifest_world ''module\<newline>'' (Some (OSError ''input/output error'')))
     = Inl (Errorf ''failed to read go.mod file: %v'' [OSError ''input/output error''])
   \<and> Scanner (File ''module\<newline>'' (Some (OSError ''input/output error'')))
       = ([''module''], Some (OSError ''input/output error''))
   \<and> getModuleName ''proj'' (manifest_world (''module\<newline>'' @ replicate 65536 (CHR ''a'')) None)
       = Inl (Errorf ''failed to read go.mod file: %v'' [ErrTooLong])
   \<and> Scanner (File (''module\<newline>'' @ replicate 65536 (CHR ''a'')) None)
       = ([''module''], Some ErrTooLong)
   \<and> HasPrefix ''module'' ''module''
   \<and> Fields ''module'' = [''module'']"
proof -
  have s: "Scanner (File ''module\<newline>'' (Some (OSError ''input/output error'')))
       = ([''module''], Some (OSError ''input/output error''))"
    by (simp add: scan_eval)
  have f: "find moduleLine [''module''] = None"
    by code_simp
  have r: "getModuleName ''proj'' (manifest_world ''module\<newline>'' (Some (OSError ''input/output error'')))
     = Inl (Errorf ''failed to read go.mod file: %v'' [OSError ''input/output error''])"
    by (simp only: getModuleName_scanned [OF os_Open_manifest_world s] f option.case)
  have long: "scanFrom [] (replicate 65536 (CHR ''a'')) None = ([], Some ErrTooLong)"
    by (rule scanFrom_too_long) (simp_all add: MaxScanTokenSize_def)
  have "scanFrom [] (''module\<newline>'' @ replicate 65536 (CHR ''a'')) None
       = ([''module''], Some ErrTooLong)"
    by (simp add: MaxScanTokenSize_def dropCR_def long)
  then have s': "Scanner (File (''module\<newline>'' @ replicate 65536 (CHR ''a'')) None)
       = ([''module''], Some ErrTooLong)"
    by (simp only: Scanner_def os_file.sel)
  have r': "getModuleName ''proj''
        (manifest_world (''module\<newline>'' @ replicate 65536 (CHR ''a'')) None)
       = Inl (Errorf ''failed to read go.mod file: %v'' [ErrTooLong])"
    by (simp only: getModuleName_scanned [OF os_Open_manifest_world s'] f option.case)
  have p: "HasPrefix ''module'' ''module''"
    by code_simp
  have t: "Fields ''module'' = [''module'']"
    by code_simp
  show ?thesis
    by (intro conjI) (fact r s r' s' p t)+
qed

text \<open>
  Claim C9, amended: a line that begins with the keyword and has fewer than two tokens
  is skipped and the scan goes on. When no line before it was a module line, the first
  module line after it supplies the result; when none follows, the resolver fails with
  the missing-declaration error if the scan reached the end of the input, and with the
  read error if the scan stopped on one.
\<close>

theorem getModuleName_skips_short_line:
  assumes "os_Open (Join [projectPath, ''go.mod'']) w = Inr f"
    and "Scanner f = (before @ line # after, end_err)"
    and "\<forall>l\<in>set before. \<not> moduleLine l"
    and "HasPrefix line ''module''"
    and "length (Fields line) < 2"
  shows "scanModule (line # after) = scanModule after
    \<and> getModuleName projectPath w =
        (case find moduleLine after of
           Some l \<Rightarrow> Inr (Base (Fields l ! 1))
         | None \<Rightarrow>
             (case end_err of
                Some err \<Rightarrow> Inl (Errorf ''failed to read go.mod file: %v'' [err])
              | None \<Rightarrow> Inl (Errorf ''module name not found in go.mod'' [])))"
proof
  show "scanModule (line # after) = scanModule after"
    using assms(4,5) by (simp add: Let_def)
next
  have short: "\<not> moduleLine line"
    using assms(5) by (simp add: moduleLine_def)
  have "find moduleLine (before @ line # after) = find moduleLine (line # after)"
    using assms(3) by (rule find_append_none)
  also have "\<dots> = find moduleLine after"
    using short by simp
  finally show "getModuleName projectPath w =
        (case find moduleLine after of
           Some l \<Rightarrow> Inr (Base (Fields l ! 1))
         | None \<Rightarrow>
             (case end_err of
                Some err \<Rightarrow> Inl (Errorf ''failed to read go.mod file: %v'' [err])
              | None \<Rightarrow> Inl (Errorf ''module name not found in go.mod'' [])))"
    by (simp only: getModuleName_scanned [OF assms(1,2)])
qed

theorem getModuleName_skips_short_line_witness:
  "getModuleName ''proj'' (manifest_world ''go 1.22\<newline>module\<newline>module a/b\<newline>'' None) = Inr ''b''
   \<and> getModuleName ''proj'' (manifest_world ''go 1.22\<newline>module\<newline>'' None)
       = Inl (Errorf ''module name not found in go.mod'' [])"
proof -
  let ?one = "''go 1.22\<newline>module\<newline>module a/b\<newline>''"
  let ?two = "''go 1.22\<newline>module\<newline>''"
  have s1: "Scanner (File ?one None) = ([''go 1.22''] @ ''module'' # [''module a/b''], None)"
    by (simp add: scan_eval)
  have s2: "Scanner (File ?two None) = ([''go 1.22''] @ ''module'' # [], None)"
    by (simp add: scan_eval)
  have b: "\<forall>l\<in>set [''go 1.22'']. \<not> moduleLine l"
    by code_simp
  have p: "HasPrefix ''module'' ''module''"
    by code_simp
  have n: "length (Fields ''module'') < 2"
    by code_simp
  have f1: "find moduleLine [''module a/b''] = Some ''module a/b''"
    by code_simp
  have f2: "Base (Fields ''module a/b'' ! 1) = ''b''"
    by code_simp
  have f3: "find moduleLine [] = None"
    by simp
  have "getModuleName ''proj'' (manifest_world ?one None) = Inr ''b''"
    using getModuleName_skips_short_line [OF os_Open_manifest_world s1 b p n]
    by (simp only: f1 f2 option.case)
  moreover have "getModuleName ''proj'' (manifest_world ?two None)
       = Inl (Errorf ''module name not found in go.mod'' [])"
    using getModuleName_skips_short_line [OF os_Open_manifest_world s2 b p n]
    by (simp only: f3 option.case)
  ultimately show ?thesis by (rule conjI)
qed

section \<open>Properties of generateServiceFile\<close>

lemma emit_fields [simp]:
  "trace (emit e w) = trace w @ [e]"
  "files (emit e w) = files w"
  "unwritable (emit e w) = unwritable w"
  "environ (emit e w) = environ w"
  "workdir (emit e w) = workdir w"
  "outcome (emit e w) = outcome w"
  "installFlag (emit e w) = installFlag w"
  "exit_code (emit e w) = exit_code w"
  by (simp_all add: emit_def)

lemma serviceContent_eq:
  "serviceContent binaryPath serviceName w =
     ''[Unit]\<newline>Description=vortex.studio/'' @ serviceName @
     '' Service\<newline>After=network.target\<newline>\<newline>[Service]\<newline>ExecStart='' @ binaryPath @
     ''\<newline>Restart=always\<newline>User='' @ os_Getenv ''USER'' w @
     ''\<newline>WorkingDirectory='' @ Dir binaryPath @
     ''\<newline>RestartSec=10\<newline>\<newline>[Install]\<newline>WantedBy=multi-user.target\<newline>''"
  by (simp add: serviceContent_def serviceTemplate_def)

lemma generateServiceFile_trace:
  "trace (generateServiceFile servicePath binaryPath serviceName w)
     = trace w @ [Write servicePath (serviceContent binaryPath serviceName w) 420]"
  by (simp add: generateServiceFile_def os_WriteFile_def split: option.split)

lemma generateServiceFile_files:
  "files (generateServiceFile servicePath binaryPath serviceName w) servicePath =
     (case unwritable w servicePath of
        None \<Rightarrow> Inr (File (serviceContent binaryPath serviceName w) None)
      | Some err \<Rightarrow> files w servicePath)"
  by (simp add: generateServiceFile_def os_WriteFile_def split: option.split)

lemma generateServiceFile_fields [simp]:
  "unwritable (generateServiceFile servicePath binaryPath serviceName w) = unwritable w"
  "environ (generateServiceFile servicePath binaryPath serviceName w) = environ w"
  "workdir (generateServiceFile servicePath binaryPath serviceName w) = workdir w"
  "outcome (generateServiceFile servicePath binaryPath serviceName w) = outcome w"
  "installFlag (generateServiceFile servicePath binaryPath serviceName w) = installFlag w"
  "exit_code (generateServiceFile servicePath binaryPath serviceName w) = exit_code w"
  by (simp_all add: generateServiceFile_def os_WriteFile_def split: option.split)

lemma splitOn_not_Nil: "splitOn sep s \<noteq> []"
  by (induction s) (auto split: list.split)

lemma splitOn_append: "splitOn sep (xs @ sep # ys) = splitOn sep xs @ splitOn sep ys"
proof (induction xs)
  case Nil
  show ?case by simp
next
  case (Cons x xs)
  obtain l ls where "splitOn sep xs = l # ls"
    using splitOn_not_Nil [of sep xs] by (cases "splitOn sep xs") auto
  with Cons show ?case by simp
qed

lemma splitOn_no_sep: "sep \<notin> set s \<Longrightarrow> splitOn sep s = [s]"
  by (induction s) auto

lemma text_lines_middle:
  assumes "CHR 0x0A \<notin> set l"
  shows "l \<in> set (text_lines (xs @ CHR 0x0A # l @ CHR 0x0A # ys))"
proof -
  have "text_lines (xs @ CHR 0x0A # l @ CHR 0x0A # ys)
          = splitOn (CHR 0x0A) xs @ splitOn (CHR 0x0A) l @ splitOn (CHR 0x0A) ys"
    by (simp only: text_lines_def splitOn_append)
  then show ?thesis
    using assms by (simp add: splitOn_no_sep)
qed

text \<open>
  Claim C1, as stated, fails: the descriptor is not the template with five
  substitutions, the service name in two places. The template has four verbs \<open>%s\<close> and
  the name fills one of them: for the name \<open>widget\<close>, the binary \<open>/srv/app/run\<close> and the
  user \<open>dev\<close> the name occurs once in the text.
\<close>

theorem serviceContent_name_once_counterexample:
  "serviceContent ''/srv/app/run'' ''widget'' (manifest_world [] None) =
     ''[Unit]\<newline>Description=vortex.studio/widget Service\<newline>After=network.target\<newline>\<newline>[Service]\<newline>ExecStart=/srv/app/run\<newline>Restart=always\<newline>User=dev\<newline>WorkingDirectory=/srv/app\<newline>RestartSec=10\<newline>\<newline>[Install]\<newline>WantedBy=multi-user.target\<newline>''
   \<and> occurrences ''widget''
        ''[Unit]\<newline>Description=vortex.studio/widget Service\<newline>After=network.target\<newline>\<newline>[Service]\<newline>ExecStart=/srv/app/run\<newline>Restart=always\<newline>User=dev\<newline>WorkingDirectory=/srv/app\<newline>RestartSec=10\<newline>\<newline>[Install]\<newline>WantedBy=multi-user.target\<newline>''
       = 1
   \<and> occurrences ''%s'' serviceTemplate = 4"
proof (intro conjI)
  have d: "Dir ''/srv/app/run'' = ''/srv/app''"
    by code_simp
  have u: "os_Getenv ''USER'' (manifest_world [] None) = ''dev''"
    by (simp add: os_Getenv_def manifest_world_def)
  show "serviceContent ''/srv/app/run'' ''widget'' (manifest_world [] None) =
     ''[Unit]\<newline>Description=vortex.studio/widget Service\<newline>After=network.target\<newline>\<newline>[Service]\<newline>ExecStart=/srv/app/run\<newline>Restart=always\<newline>User=dev\<newline>WorkingDirectory=/srv/app\<newline>RestartSec=10\<newline>\<newline>[Install]\<newline>WantedBy=multi-user.target\<newline>''"
    by (simp add: serviceContent_eq d u)
next
  show "occurrences ''widget''
        ''[Unit]\<newline>Description=vortex.studio/widget Service\<newline>After=network.target\<newline>\<newline>[Service]\<newline>ExecStart=/srv/app/run\<newline>Restart=always\<newline>User=dev\<newline>WorkingDirectory=/srv/app\<newline>RestartSec=10\<newline>\<newline>[Install]\<newline>WantedBy=multi-user.target\<newline>''
       = 1"
    by code_simp
next
  show "occurrences ''%s'' serviceTemplate = 4"
    by code_simp
qed

text \<open>
  Claim C1, amended: for every service name, binary path and environment, the text that
  the generator hands to \<open>os.WriteFile\<close> is byte for byte the fixed template with
  exactly four substitutions: the service name once (in the \<open>Description\<close> line), the
  binary path, the value of \<open>USER\<close>, and the directory of the binary path. That text is
  written to the service path with permission bits 0644 (420), and is the content of
  the file afterwards when the path can be written.
\<close>

theorem generateServiceFile_four_substitutions:
  "serviceContent binaryPath serviceName w =
     ''[Unit]\<newline>Description=vortex.studio/'' @ serviceName @
     '' Service\<newline>After=network.target\<newline>\<newline>[Service]\<newline>ExecStart='' @ binaryPath @
     ''\<newline>Restart=always\<newline>User='' @ os_Getenv ''USER'' w @
     ''\<newline>WorkingDirectory='' @ Dir binaryPath @
     ''\<newline>RestartSec=10\<newline>\<newline>[Install]\<newline>WantedBy=multi-user.target\<newline>''
   \<and> trace (generateServiceFile servicePath binaryPath serviceName w)
       = trace w @ [Write servicePath (serviceContent binaryPath serviceName w) 420]
   \<and> files (generateServiceFile servicePath binaryPath serviceName w) servicePath =
       (case unwritable w servicePath of
          None \<Rightarrow> Inr (File (serviceContent binaryPath serviceName w) None)
        | Some err \<Rightarrow> files w servicePath)"
  by (intro conjI serviceContent_eq generateServiceFile_trace generateServiceFile_files)

text \<open>
  Claim C10: when the variable \<open>USER\<close> is unset or empty, the text of the descriptor has
  a line that is exactly \<open>User=\<close>, and the generation completes as for any other user:
  the text is handed to \<open>os.WriteFile\<close>, nothing is logged, the process is not
  terminated, and the file holds the text afterwards when its path can be written.
\<close>

theorem generateServiceFile_empty_user:
  assumes "environ w ''USER'' = None \<or> environ w ''USER'' = Some []"
  shows "''User='' \<in> set (text_lines (serviceContent binaryPath serviceName w))
    \<and> trace (generateServiceFile servicePath binaryPath serviceName w)
        = trace w @ [Write servicePath (serviceContent binaryPath serviceName w) 420]
    \<and> exit_code (generateServiceFile servicePath binaryPath serviceName w) = exit_code w
    \<and> files (generateServiceFile servicePath binaryPath serviceName w) servicePath =
        (case unwritable w servicePath of
           None \<Rightarrow> Inr (File (serviceContent binaryPath serviceName w) None)
         | Some err \<Rightarrow> files w servicePath)"
proof -
  have user: "os_Getenv ''USER'' w = []"
    using assms by (auto simp add: os_Getenv_def)
  let ?head = "''[Unit]\<newline>Description=vortex.studio/'' @ serviceName @
       '' Service\<newline>After=network.target\<newline>\<newline>[Service]\<newline>ExecStart='' @ binaryPath @
       ''\<newline>Restart=always''"
  let ?tail = "''WorkingDirectory='' @ Dir binaryPath @
       ''\<newline>RestartSec=10\<newline>\<newline>[Install]\<newline>WantedBy=multi-user.target\<newline>''"
  have shape: "serviceContent binaryPath serviceName w
      = ?head @ CHR 0x0A # ''User='' @ CHR 0x0A # ?tail"
    by (simp add: serviceContent_eq user)
  have "''User='' \<in> set (text_lines (?head @ CHR 0x0A # ''User='' @ CHR 0x0A # ?tail))"
    by (rule text_lines_middle) simp
  then have "''User='' \<in> set (text_lines (serviceContent binaryPath serviceName w))"
    by (simp only: shape)
  then show ?thesis
    by (simp add: generateServiceFile_trace generateServiceFile_files)
qed

theorem generateServiceFile_empty_user_witness:
  "''User='' \<in> set (text_lines (serviceContent ''/srv/app/run'' ''widget'' no_user_world))
   \<and> trace (generateServiceFile ''/srv/app/widget.service'' ''/srv/app/run'' ''widget'' no_user_world)
       = [Write ''/srv/app/widget.service''
            (serviceContent ''/srv/app/run'' ''widget'' no_user_world) 420]
   \<and> exit_code (generateServiceFile ''/srv/app/widget.service'' ''/srv/app/run'' ''widget''
        no_user_world) = None
   \<and> files (generateServiceFile ''/srv/app/widget.service'' ''/srv/app/run'' ''widget''
        no_user_world) ''/srv/app/widget.service''
       = Inr (File (serviceContent ''/srv/app/run'' ''widget'' no_user_world) None)"
proof -
  have unset: "environ no_user_world ''USER'' = None \<or> environ no_user_world ''USER'' = Some []"
    by (simp add: no_user_world_def)
  have start: "trace no_user_world = []" "exit_code no_user_world = None"
    "unwritable no_user_world ''/srv/app/widget.service'' = None"
    by (simp_all add: no_user_world_def manifest_world_def)
  show ?thesis
    using generateServiceFile_empty_user [OF unset, of "''/srv/app/run''" "''widget''"
        "''/srv/app/widget.service''"]
    by (simp only: start append_Nil option.case)
qed

section \<open>Properties of buildGoProject\<close>

lemma Abs_emit [simp]: "Abs path (emit e w) = Abs path w"
  by (simp add: Abs_def)

lemma Run_fst:
  "fst (Run argv dir w) =
     (case outcome w argv of
        NotFound msg \<Rightarrow> Some (ExecError msg)
      | NotStarted msg \<Rightarrow>
          (case dirError dir w of Some err \<Rightarrow> Some err | None \<Rightarrow> Some (ExecError msg))
      | Exited status \<Rightarrow>
          (case dirError dir w of
             Some err \<Rightarrow> Some err
           | None \<Rightarrow> if status = 0 then None else Some (ExitError status)))"
  by (simp add: Run_def split: proc_outcome.split option.split)

lemma Run_snd [simp]: "snd (Run argv dir w) = emit (Exec argv dir) w"
  by (simp add: Run_def)

lemma Run_no_dir: "Run argv [] w = (runError (outcome w argv), emit (Exec argv []) w)"
  by (cases "outcome w argv") (simp_all add: Run_def dirError_def)

lemma buildGoProject_fst:
  "fst (buildGoProject projectPath binaryName w) =
     (case fst (Run [''go'', ''build'', ''-o'', Join [projectPath, binaryName], projectPath]
                  projectPath w) of
        Some err \<Rightarrow> Inl err
      | None \<Rightarrow>
          (case Abs (Join [projectPath, binaryName]) w of
             Inl err \<Rightarrow> Inl (Errorf ''failed to get absolute path of binary: %v'' [err])
           | Inr absBinaryPath \<Rightarrow> Inr absBinaryPath))"
proof -
  obtain r w1 where run: "Run [''go'', ''build'', ''-o'', Join [projectPath, binaryName], projectPath]
      projectPath w = (r, w1)"
    by (cases "Run [''go'', ''build'', ''-o'', Join [projectPath, binaryName], projectPath]
      projectPath w")
  then have "w1 = emit (Exec [''go'', ''build'', ''-o'', Join [projectPath, binaryName], projectPath]
      projectPath) w"
    using Run_snd [of "[''go'', ''build'', ''-o'', Join [projectPath, binaryName], projectPath]"
        projectPath w] by simp
  then show ?thesis
    using run
    by (simp add: buildGoProject_def Let_def del: Join.simps split: option.split sum.split)
qed

lemma buildGoProject_snd:
  "snd (buildGoProject projectPath binaryName w) =
     emit (Exec [''go'', ''build'', ''-o'', Join [projectPath, binaryName], projectPath]
             projectPath) w"
proof -
  obtain r w1 where run: "Run [''go'', ''build'', ''-o'', Join [projectPath, binaryName], projectPath]
      projectPath w = (r, w1)"
    by (cases "Run [''go'', ''build'', ''-o'', Join [projectPath, binaryName], projectPath]
      projectPath w")
  then have "w1 = emit (Exec [''go'', ''build'', ''-o'', Join [projectPath, binaryName], projectPath]
      projectPath) w"
    using Run_snd [of "[''go'', ''build'', ''-o'', Join [projectPath, binaryName], projectPath]"
        projectPath w] by simp
  then show ?thesis
    using run
    by (simp add: buildGoProject_def Let_def del: Join.simps split: option.split sum.split)
qed





subsection \<open>A cleaned path is a fixed point of Clean\<close>











subsection \<open>The result of buildGoProject\<close>

lemma Join_proj_bar: "Join [''proj'', ''bar''] = ''proj/bar''"
  by code_simp


lemma dirError_resolved:
  "(dirError dir w = None) = (dir = [] \<or> IsAbs dir \<or> (\<exists>wd. workdir w = Inr wd))"
  by (cases "workdir w") (auto simp add: dirError_def Abs_def simp del: Join.simps)






section \<open>Properties of the installer and of the pipeline\<close>

lemma Sprintf_service [simp]:
  "Sprintf ''%s.service'' [name] = name @ ''.service''"
  "Sprintf ''/etc/systemd/system/%s.service'' [name] = ''/etc/systemd/system/'' @ name @ ''.service''"
  by simp_all

lemma execs_append [simp]: "execs (t @ u) = execs t @ execs u"
  by (induction t rule: execs.induct) simp_all

lemma less_four: "k < 4 \<Longrightarrow> k = 0 \<or> k = 1 \<or> k = 2 \<or> k = (3::nat)"
  by arith

subsection \<open>copyServiceToSystemd\<close>

text \<open>The installer reads the outcomes of the commands and adds to the trace; nothing else.\<close>

lemma copyServiceToSystemd_fields [simp]:
  "files (copyServiceToSystemd f n w) = files w"
  "unwritable (copyServiceToSystemd f n w) = unwritable w"
  "outcome (copyServiceToSystemd f n w) = outcome w"
  "installFlag (copyServiceToSystemd f n w) = installFlag w"
  "exit_code (copyServiceToSystemd f n w) = exit_code w"
  by (simp_all add: copyServiceToSystemd_def Run_no_dir Let_def del: Sprintf.simps
        split: option.split)

lemma copyServiceToSystemd_trace:
  assumes "outcome w' = outcome w"
  shows "trace (copyServiceToSystemd f n w)
           = trace w @ trace (copyServiceToSystemd f n (w'\<lparr>trace := []\<rparr>))"
  using assms
  by (simp add: copyServiceToSystemd_def Run_no_dir Let_def emit_def del: Sprintf.simps
        split: option.split)

lemma copyServiceToSystemd_execs:
  "execs (trace (copyServiceToSystemd f n w))
     = execs (trace w) @ attempted (outcome w) (installCommands f n)"
  by (simp add: copyServiceToSystemd_def Run_no_dir Let_def installCommands_def
        del: Sprintf.simps split: option.split)

lemma attempted_entered:
  "k < length (attempted oc cs) \<Longrightarrow>
     attempted oc cs ! k = cs ! k \<and> (\<forall>c\<in>set (take k cs). runError (oc c) = None)"
proof (induction cs arbitrary: k)
  case Nil
  then show ?case by simp
next
  case (Cons c cs)
  show ?case
  proof (cases k)
    case 0
    then show ?thesis by simp
  next
    case (Suc j)
    with Cons.prems have ok: "runError (oc c) = None" and "j < length (attempted oc cs)"
      by (auto split: if_splits)
    with Cons.IH [of j] Suc show ?thesis
      by simp
  qed
qed

lemma attempted_first_failure:
  "k < length cs \<Longrightarrow> \<forall>c\<in>set (take k cs). runError (oc c) = None \<Longrightarrow>
     runError (oc (cs ! k)) \<noteq> None \<Longrightarrow> attempted oc cs = take (Suc k) cs"
proof (induction cs arbitrary: k)
  case Nil
  then show ?case by simp
next
  case (Cons c cs)
  then show ?case
    by (cases k) auto
qed

lemma attempted_all:
  "\<forall>c\<in>set cs. runError (oc c) = None \<Longrightarrow> attempted oc cs = cs"
  by (induction cs) simp_all

lemma copyServiceToSystemd_last:
  assumes "k < 4"
    and "\<forall>c\<in>set (take k (installCommands f n)). runError (outcome w c) = None"
    and "runError (outcome w (installCommands f n ! k)) = Some err"
  shows "last (trace (copyServiceToSystemd f n w)) = LogErrorf (installFailureMessages ! k) err"
proof -
  consider "k = 0" | "k = 1" | "k = 2" | "k = 3"
    using less_four [OF assms(1)] by blast
  then show ?thesis
  proof cases
    case 1
    then show ?thesis
      using assms(3)
      by (simp add: copyServiceToSystemd_def Run_no_dir Let_def installCommands_def
          installFailureMessages_def del: Sprintf.simps)
  next
    case 2
    then show ?thesis
      using assms(2,3)
      by (simp add: copyServiceToSystemd_def Run_no_dir Let_def installCommands_def
          installFailureMessages_def del: Sprintf.simps)
  next
    case 3
    then have "take k (installCommands f n) = [installCommands f n ! 0, installCommands f n ! 1]"
      by (simp add: installCommands_def)
    then show ?thesis
      using assms(2,3) 3
      by (simp add: copyServiceToSystemd_def Run_no_dir Let_def installCommands_def
          installFailureMessages_def del: Sprintf.simps)
  next
    case 4
    then have "take k (installCommands f n)
        = [installCommands f n ! 0, installCommands f n ! 1, installCommands f n ! 2]"
      by (simp add: installCommands_def)
    then show ?thesis
      using assms(2,3) 4
      by (simp add: copyServiceToSystemd_def Run_no_dir Let_def installCommands_def
          installFailureMessages_def del: Sprintf.simps)
  qed
qed

subsection \<open>runProjectSetup\<close>

lemma getModuleName_fields [simp]:
  "getModuleName p (w\<lparr>installFlag := i\<rparr>) = getModuleName p w"
  "getModuleName p (w\<lparr>unwritable := u\<rparr>) = getModuleName p w"
  by (simp_all add: getModuleName_def os_Open_def del: Join.simps)

lemma Abs_fields [simp]:
  "Abs path (w\<lparr>installFlag := i\<rparr>) = Abs path w"
  "Abs path (w\<lparr>unwritable := u\<rparr>) = Abs path w"
  by (simp_all add: Abs_def)

lemma dirError_fields [simp]:
  "dirError dir (w\<lparr>installFlag := i\<rparr>) = dirError dir w"
  "dirError dir (w\<lparr>unwritable := u\<rparr>) = dirError dir w"
  by (simp_all add: dirError_def)

lemma Run_fst_fields [simp]:
  "fst (Run argv dir (w\<lparr>installFlag := i\<rparr>)) = fst (Run argv dir w)"
  "fst (Run argv dir (w\<lparr>unwritable := u\<rparr>)) = fst (Run argv dir w)"
  by (simp_all add: Run_def split: option.split)

lemma buildGoProject_fields [simp]:
  "fst (buildGoProject p n (w\<lparr>installFlag := i\<rparr>)) = fst (buildGoProject p n w)"
  "fst (buildGoProject p n (w\<lparr>unwritable := u\<rparr>)) = fst (buildGoProject p n w)"
  by (simp_all add: buildGoProject_fst del: Join.simps split: option.split)

lemma serviceContent_fields [simp]:
  "serviceContent b n (emit e w) = serviceContent b n w"
  "serviceContent b n (w\<lparr>unwritable := u\<rparr>) = serviceContent b n w"
  "serviceContent b n (w\<lparr>installFlag := i\<rparr>) = serviceContent b n w"
  by (simp_all add: serviceContent_def os_Getenv_def del: Sprintf.simps)

lemma runProjectSetup_Cons:
  "runProjectSetup (p # rest) w =
     (case getModuleName p w of
        Inl err \<Rightarrow> emit (LogErrorf ''Error: %v'' err) w
      | Inr name \<Rightarrow>
          (case fst (buildGoProject p name w) of
             Inl err \<Rightarrow>
               emit (LogErrorf ''Failed to build the Go project: %v'' err)
                 (snd (buildGoProject p name w))
           | Inr bin \<Rightarrow>
               (let sp = Join [p, name @ ''.service''];
                    w3 = emit (LogInfof ''Service file created at: %v'' sp)
                           (generateServiceFile sp bin name (snd (buildGoProject p name w)))
                in if installFlag w then copyServiceToSystemd sp name w3 else w3)))"
proof (cases "getModuleName p w")
  case (Inl err)
  then show ?thesis
    by (simp add: runProjectSetup_def)
next
  case (Inr name)
  obtain r w1 where b: "buildGoProject p name w = (r, w1)"
    by (cases "buildGoProject p name w")
  then have w1: "w1 = snd (buildGoProject p name w)" and r: "r = fst (buildGoProject p name w)"
    by simp_all
  have flag: "installFlag w1 = installFlag w"
    by (simp add: w1 buildGoProject_snd del: Join.simps)
  show ?thesis
  proof (cases r)
    case (Inl err)
    then show ?thesis
      using Inr b by (simp add: runProjectSetup_def del: Join.simps)
  next
    case (Inr bin)
    then show ?thesis
      using \<open>getModuleName p w = Inr name\<close> b flag
      by (simp add: runProjectSetup_def Let_def del: Join.simps)
  qed
qed

lemma runProjectSetup_trace:
  "trace (runProjectSetup (p # rest) w) = trace w @
     (case getModuleName p w of
        Inl err \<Rightarrow> [LogErrorf ''Error: %v'' err]
      | Inr name \<Rightarrow>
          Exec [''go'', ''build'', ''-o'', Join [p, name], p] p #
          (case fst (buildGoProject p name w) of
             Inl err \<Rightarrow> [LogErrorf ''Failed to build the Go project: %v'' err]
           | Inr bin \<Rightarrow>
               [Write (Join [p, name @ ''.service'']) (serviceContent bin name w) 420,
                LogInfof ''Service file created at: %v'' (Join [p, name @ ''.service''])] @
               (if installFlag w
                then trace (copyServiceToSystemd (Join [p, name @ ''.service'']) name
                             (w\<lparr>trace := []\<rparr>))
                else [])))"
proof (cases "getModuleName p w")
  case (Inl err)
  then show ?thesis
    by (simp add: runProjectSetup_Cons)
next
  case (Inr name)
  show ?thesis
  proof (cases "fst (buildGoProject p name w)")
    case (Inl err)
    then show ?thesis
      using Inr by (simp add: runProjectSetup_Cons buildGoProject_snd del: Join.simps)
  next
    case (Inr bin)
    let ?sp = "Join [p, name @ ''.service'']"
    let ?w3 = "emit (LogInfof ''Service file created at: %v'' ?sp)
                 (generateServiceFile ?sp bin name (snd (buildGoProject p name w)))"
    have t3: "trace ?w3 = trace w @
        [Exec [''go'', ''build'', ''-o'', Join [p, name], p] p,
         Write ?sp (serviceContent bin name w) 420,
         LogInfof ''Service file created at: %v'' ?sp]"
      by (simp add: generateServiceFile_trace buildGoProject_snd del: Join.simps)
    have "outcome w = outcome ?w3"
      by (simp add: buildGoProject_snd del: Join.simps)
    then have "trace (copyServiceToSystemd ?sp name ?w3)
        = trace ?w3 @ trace (copyServiceToSystemd ?sp name (w\<lparr>trace := []\<rparr>))"
      by (rule copyServiceToSystemd_trace)
    then show ?thesis
      using Inr \<open>getModuleName p w = Inr name\<close> t3
      by (simp add: runProjectSetup_Cons Let_def del: Join.simps)
  qed
qed

lemma runProjectSetup_exit_code:
  "exit_code (runProjectSetup (p # rest) w) = exit_code w"
  by (simp add: runProjectSetup_Cons Let_def buildGoProject_snd del: Join.simps
        split: sum.split)

lemma copyServiceToSystemd_trace_unwritable:
  "trace (copyServiceToSystemd f n (w\<lparr>unwritable := u, trace := []\<rparr>))
     = trace (copyServiceToSystemd f n (w\<lparr>trace := []\<rparr>))"
  using copyServiceToSystemd_trace [of w "w\<lparr>unwritable := u, trace := []\<rparr>" f n]
  by simp

lemma copyServiceToSystemd_no_error_log:
  assumes "\<forall>c\<in>set (installCommands f n). runError (outcome w c) = None"
  shows "trace (copyServiceToSystemd f n w) = trace w @
           [Exec (installCommands f n ! 0) [],
            LogInfof ''Service file copied to: %v'' (''/etc/systemd/system/'' @ n @ ''.service''),
            Exec (installCommands f n ! 1) [],
            Exec (installCommands f n ! 2) [],
            Exec (installCommands f n ! 3) [],
            LogInfo ''Service enabled and started successfully.'']"
  using assms
  by (simp add: copyServiceToSystemd_def Run_no_dir Let_def installCommands_def
        del: Sprintf.simps)

subsection \<open>Facts about the example environments\<close>

lemma getModuleName_bar:
  "getModuleName ''proj'' (manifest_world ''module example.com/foo/bar\<newline>'' None) = Inr ''bar''"
proof -
  have s: "Scanner (File ''module example.com/foo/bar\<newline>'' None)
             = ([''module example.com/foo/bar''], None)"
    by (simp add: scan_eval)
  have f: "find moduleLine [''module example.com/foo/bar''] = Some ''module example.com/foo/bar''"
    by code_simp
  have b: "Base (Fields ''module example.com/foo/bar'' ! 1) = ''bar''"
    by code_simp
  show ?thesis
    by (simp only: getModuleName_scanned [OF os_Open_manifest_world s] f b option.case)
qed

lemma getModuleName_empty_manifest:
  "getModuleName ''proj'' (manifest_world [] None)
     = Inl (Errorf ''module name not found in go.mod'' [])"
proof -
  have s: "Scanner (File [] None) = ([], None)"
    by (simp add: scan_eval)
  have f: "find moduleLine [] = None"
    by simp
  show ?thesis
    by (simp only: getModuleName_scanned [OF os_Open_manifest_world s] f option.case)
qed

lemma Abs_manifest_world:
  "Abs ''proj/bar'' (manifest_world bytes end_err) = Inr ''/home/dev/proj/bar''"
proof -
  have rel: "\<not> IsAbs ''proj/bar''"
    by (simp add: IsAbs_def HasPrefix_def Separator_def)
  have joined: "Join [''/home/dev'', ''proj/bar''] = ''/home/dev/proj/bar''"
    by code_simp
  have wd: "workdir (manifest_world bytes end_err) = Inr ''/home/dev''"
    by (simp add: manifest_world_def)
  show ?thesis
    by (simp only: Abs_def rel if_False wd sum.case joined)
qed

lemma buildGoProject_manifest_world:
  "fst (buildGoProject ''proj'' ''bar'' (manifest_world bytes end_err)) = Inr ''/home/dev/proj/bar''"
proof -
  have oc: "outcome (manifest_world bytes end_err) [''go'', ''build'', ''-o'', ''proj/bar'', ''proj'']
              = Exited 0"
    by (simp add: manifest_world_def exits_def)
  have wd: "workdir (manifest_world bytes end_err) = Inr ''/home/dev''"
    by (simp add: manifest_world_def)
  have dir: "dirError ''proj'' (manifest_world bytes end_err) = None"
    by (simp add: dirError_resolved wd)
  have "fst (Run [''go'', ''build'', ''-o'', ''proj/bar'', ''proj''] ''proj''
      (manifest_world bytes end_err)) = None"
    by (simp only: Run_fst oc dir proc_outcome.case option.case simp_thms if_True)
  then show ?thesis
    by (simp only: buildGoProject_fst Join_proj_bar Abs_manifest_world option.case sum.case)
qed

lemma Join_proj_service: "Join [''proj'', ''bar.service''] = ''proj/bar.service''"
  by code_simp

lemma installCommands_bar:
  "installCommands ''proj/bar.service'' ''bar'' =
     [[''sudo'', ''cp'', ''proj/bar.service'', ''/etc/systemd/system/bar.service''],
      [''sudo'', ''systemctl'', ''daemon-reload''],
      [''sudo'', ''systemctl'', ''enable'', ''bar.service''],
      [''sudo'', ''systemctl'', ''start'', ''bar.service'']]"
  by (simp add: installCommands_def)

lemma enable_fails_world_outcomes:
  "runError (outcome enable_fails_world
      [''sudo'', ''cp'', ''proj/bar.service'', ''/etc/systemd/system/bar.service'']) = None"
  "runError (outcome enable_fails_world [''sudo'', ''systemctl'', ''daemon-reload'']) = None"
  "runError (outcome enable_fails_world [''sudo'', ''systemctl'', ''enable'', ''bar.service''])
     = Some (ExitError 1)"
  by (simp_all add: enable_fails_world_def manifest_world_def exits_def)

subsection \<open>The claims about the installer and the pipeline\<close>

text \<open>
  Claim C5: in the installer each of the four states (copy, reload, enable, start) is
  entered only if all the states before it succeeded. The subprocesses that the
  installer runs are the four commands up to the first that fails, that one included:
  a command that is run has only successful commands before it; when the command of
  state \<open>k\<close> is the first to fail, the commands of the states before it have been run and
  nothing is run after it (no later state, no rollback); in particular, when the copy
  fails, the copy is the only subprocess.
\<close>

theorem copyServiceToSystemd_states:
  "execs (trace (copyServiceToSystemd f n w))
     = execs (trace w) @ attempted (outcome w) (installCommands f n)
   \<and> (\<forall>k < length (attempted (outcome w) (installCommands f n)).
         attempted (outcome w) (installCommands f n) ! k = installCommands f n ! k
         \<and> (\<forall>c\<in>set (take k (installCommands f n)). runError (outcome w c) = None))
   \<and> (\<forall>k<4. (\<forall>c\<in>set (take k (installCommands f n)). runError (outcome w c) = None)
               \<and> runError (outcome w (installCommands f n ! k)) \<noteq> None
         \<longrightarrow> attempted (outcome w) (installCommands f n) = take (Suc k) (installCommands f n))
   \<and> (runError (outcome w (installCommands f n ! 0)) \<noteq> None
         \<longrightarrow> execs (trace (copyServiceToSystemd f n w))
               = execs (trace w) @ [installCommands f n ! 0])"
proof (intro conjI allI impI)
  show "execs (trace (copyServiceToSystemd f n w))
     = execs (trace w) @ attempted (outcome w) (installCommands f n)"
    by (rule copyServiceToSystemd_execs)
next
  fix k
  assume "k < length (attempted (outcome w) (installCommands f n))"
  then have "attempted (outcome w) (installCommands f n) ! k = installCommands f n ! k
         \<and> (\<forall>c\<in>set (take k (installCommands f n)). runError (outcome w c) = None)"
    by (rule attempted_entered)
  then show "attempted (outcome w) (installCommands f n) ! k = installCommands f n ! k"
    and "\<forall>c\<in>set (take k (installCommands f n)). runError (outcome w c) = None"
    by simp_all
next
  fix k :: nat
  assume "k < 4"
    and "(\<forall>c\<in>set (take k (installCommands f n)). runError (outcome w c) = None)
               \<and> runError (outcome w (installCommands f n ! k)) \<noteq> None"
  moreover have "length (installCommands f n) = 4"
    by (simp add: installCommands_def)
  ultimately show "attempted (outcome w) (installCommands f n)
      = take (Suc k) (installCommands f n)"
    by (intro attempted_first_failure) simp_all
next
  assume "runError (outcome w (installCommands f n ! 0)) \<noteq> None"
  then show "execs (trace (copyServiceToSystemd f n w))
               = execs (trace w) @ [installCommands f n ! 0]"
    by (simp add: copyServiceToSystemd_execs installCommands_def)
qed

theorem copyServiceToSystemd_states_witness:
  "execs (trace (copyServiceToSystemd ''proj/bar.service'' ''bar'' enable_fails_world)) =
     [[''sudo'', ''cp'', ''proj/bar.service'', ''/etc/systemd/system/bar.service''],
      [''sudo'', ''systemctl'', ''daemon-reload''],
      [''sudo'', ''systemctl'', ''enable'', ''bar.service'']]"
proof -
  let ?cmds = "installCommands ''proj/bar.service'' ''bar''"
  note states = copyServiceToSystemd_states [of "''proj/bar.service''" "''bar''" enable_fails_world]
  have start: "trace enable_fails_world = []"
    by (simp add: enable_fails_world_def manifest_world_def)
  have "(\<forall>c\<in>set (take 2 ?cmds). runError (outcome enable_fails_world c) = None)
      \<and> runError (outcome enable_fails_world (?cmds ! 2)) \<noteq> None"
    by (simp add: installCommands_bar enable_fails_world_outcomes)
  moreover have "(2::nat) < 4"
    by simp
  ultimately have "attempted (outcome enable_fails_world) ?cmds = take (Suc 2) ?cmds"
    using states by blast
  then have "execs (trace (copyServiceToSystemd ''proj/bar.service'' ''bar'' enable_fails_world))
      = take (Suc 2) ?cmds"
    using states start by simp
  then show ?thesis
    by (simp add: installCommands_bar)
qed

text \<open>
  Claim C4: when the install flag is unset, a run of the pipeline performs no
  privileged subprocess invocation, whatever the outcome of its steps: the privileged
  invocations in the trace after the run are those that were there before it.
\<close>

theorem runProjectSetup_no_privileged:
  "(\<not> installFlag w \<longrightarrow>
      filter privileged (trace (runProjectSetup args w)) = filter privileged (trace w))
   \<and> filter privileged (trace (Execute (Parsed False args) w)) = filter privileged (trace w)"
proof -
  have run: "filter privileged (trace (runProjectSetup args v)) = filter privileged (trace v)"
    if "\<not> installFlag v" for v
  proof (cases args)
    case Nil
    then show ?thesis
      by (simp add: runProjectSetup_def os_Exit_def)
  next
    case (Cons p rest)
    then show ?thesis
      using that by (simp add: runProjectSetup_trace del: Join.simps split: sum.split)
  qed
  have "filter privileged (trace (Execute (Parsed False args) w)) = filter privileged (trace w)"
    using run [of "w\<lparr>installFlag := False\<rparr>"]
    by (simp add: Execute_def rootCmd_Execute_def ExactArgs_def os_Exit_def)
  then show ?thesis
    using run [of w] by simp
qed

lemma runProjectSetup_bar_trace:
  "trace (runProjectSetup [''proj''] (manifest_world ''module example.com/foo/bar\<newline>'' None)) =
     [Exec [''go'', ''build'', ''-o'', ''proj/bar'', ''proj''] ''proj'',
      Write ''proj/bar.service''
        (serviceContent ''/home/dev/proj/bar'' ''bar''
           (manifest_world ''module example.com/foo/bar\<newline>'' None)) 420,
      LogInfof ''Service file created at: %v'' ''proj/bar.service'']"
proof -
  let ?w = "manifest_world ''module example.com/foo/bar\<newline>'' None"
  have unset: "\<not> installFlag ?w" and start: "trace ?w = []"
    by (simp_all add: manifest_world_def)
  show ?thesis
    by (simp only: runProjectSetup_trace getModuleName_bar buildGoProject_manifest_world
        Join_proj_bar Join_proj_service unset start sum.case if_False append_Nil append_Nil2
        append_Cons)
qed

theorem runProjectSetup_no_privileged_witness:
  "filter privileged
     (trace (runProjectSetup [''proj''] (manifest_world ''module example.com/foo/bar\<newline>'' None)))
   = []
   \<and> execs
     (trace (runProjectSetup [''proj''] (manifest_world ''module example.com/foo/bar\<newline>'' None)))
   = [[''go'', ''build'', ''-o'', ''proj/bar'', ''proj'']]"
proof -
  let ?w = "manifest_world ''module example.com/foo/bar\<newline>'' None"
  have unset: "\<not> installFlag ?w" and start: "trace ?w = []"
    by (simp_all add: manifest_world_def)
  have "filter privileged (trace (runProjectSetup [''proj''] ?w)) = []"
    using runProjectSetup_no_privileged [of ?w "[''proj'']"] unset start by simp
  moreover have "execs (trace (runProjectSetup [''proj''] ?w))
      = [[''go'', ''build'', ''-o'', ''proj/bar'', ''proj'']]"
    by (simp only: runProjectSetup_bar_trace execs.simps)
  ultimately show ?thesis
    by (rule conjI)
qed

text \<open>
  Claim C7: only a failure of the command setup (a flag error, or a number of arguments
  other than one) terminates the process with a non-zero status, after logging the
  error. When the setup succeeds the process is not terminated, whatever the pipeline
  does: a failure of the module resolution, of the build or of a command of the
  installer is logged, it is the last thing the run does, and the exit status is left
  as it was.
\<close>

theorem Execute_exit_status:
  "exit_code (Execute cl w) = (case setupError cl of Some err \<Rightarrow> Some 1 | None \<Rightarrow> exit_code w)
   \<and> (\<forall>err. setupError cl = Some err \<longrightarrow> trace (Execute cl w) = trace w @ [LogErrorf ''%v'' err])
   \<and> (\<forall>err. getModuleName p w = Inl err \<longrightarrow>
         trace (Execute (Parsed install [p]) w) = trace w @ [LogErrorf ''Error: %v'' err])
   \<and> (\<forall>name err. getModuleName p w = Inr name \<and> fst (buildGoProject p name w) = Inl err \<longrightarrow>
         last (trace (Execute (Parsed install [p]) w))
           = LogErrorf ''Failed to build the Go project: %v'' err)
   \<and> (\<forall>name bin k err.
         getModuleName p w = Inr name \<and> fst (buildGoProject p name w) = Inr bin \<and> k < 4
         \<and> (\<forall>c\<in>set (take k (installCommands (Join [p, name @ ''.service'']) name)).
               runError (outcome w c) = None)
         \<and> runError (outcome w (installCommands (Join [p, name @ ''.service'']) name ! k))
               = Some err
         \<longrightarrow> last (trace (Execute (Parsed True [p]) w))
               = LogErrorf (installFailureMessages ! k) err)"
proof (intro conjI allI impI)
  show "exit_code (Execute cl w)
      = (case setupError cl of Some err \<Rightarrow> Some 1 | None \<Rightarrow> exit_code w)"
  proof (cases cl)
    case (Parsed install args)
    show ?thesis
    proof (cases args)
      case Nil
      then show ?thesis
        using Parsed by (simp add: Execute_def rootCmd_Execute_def ExactArgs_def os_Exit_def)
    next
      case (Cons a rest)
      then show ?thesis
        using Parsed
        by (simp add: Execute_def rootCmd_Execute_def ExactArgs_def os_Exit_def
            runProjectSetup_exit_code)
    qed
  qed (simp_all add: Execute_def rootCmd_Execute_def os_Exit_def)
next
  fix err
  assume "setupError cl = Some err"
  then show "trace (Execute cl w) = trace w @ [LogErrorf ''%v'' err]"
    by (cases cl)
      (auto simp add: Execute_def rootCmd_Execute_def ExactArgs_def os_Exit_def
        split: if_splits)
next
  fix err
  assume "getModuleName p w = Inl err"
  then show "trace (Execute (Parsed install [p]) w) = trace w @ [LogErrorf ''Error: %v'' err]"
    by (simp add: Execute_def rootCmd_Execute_def ExactArgs_def runProjectSetup_trace)
next
  fix name err
  assume "getModuleName p w = Inr name \<and> fst (buildGoProject p name w) = Inl err"
  then show "last (trace (Execute (Parsed install [p]) w))
           = LogErrorf ''Failed to build the Go project: %v'' err"
    by (simp add: Execute_def rootCmd_Execute_def ExactArgs_def runProjectSetup_trace
        del: Join.simps)
next
  fix name bin k err
  let ?sp = "Join [p, name @ ''.service'']"
  let ?v = "w\<lparr>installFlag := True\<rparr>"
  let ?w3 = "emit (LogInfof ''Service file created at: %v'' ?sp)
               (generateServiceFile ?sp bin name (snd (buildGoProject p name ?v)))"
  assume h: "getModuleName p w = Inr name \<and> fst (buildGoProject p name w) = Inr bin \<and> k < 4
         \<and> (\<forall>c\<in>set (take k (installCommands ?sp name)). runError (outcome w c) = None)
         \<and> runError (outcome w (installCommands ?sp name ! k)) = Some err"
  have same: "outcome ?w3 = outcome w"
    by (simp add: buildGoProject_snd del: Join.simps)
  have "Execute (Parsed True [p]) w = copyServiceToSystemd ?sp name ?w3"
    using h
    by (simp add: Execute_def rootCmd_Execute_def ExactArgs_def runProjectSetup_Cons Let_def
        del: Join.simps)
  moreover have "last (trace (copyServiceToSystemd ?sp name ?w3))
      = LogErrorf (installFailureMessages ! k) err"
  proof (rule copyServiceToSystemd_last)
    show "k < 4"
      using h by blast
    show "\<forall>c\<in>set (take k (installCommands ?sp name)). runError (outcome ?w3 c) = None"
      using h unfolding same by blast
    show "runError (outcome ?w3 (installCommands ?sp name ! k)) = Some err"
      using h unfolding same by blast
  qed
  ultimately show "last (trace (Execute (Parsed True [p]) w))
      = LogErrorf (installFailureMessages ! k) err"
    by simp
qed

lemma enable_fails_world_steps:
  "getModuleName ''proj'' enable_fails_world = Inr ''bar''"
  "fst (buildGoProject ''proj'' ''bar'' enable_fails_world) = Inr ''/home/dev/proj/bar''"
proof -
  let ?w = "manifest_world ''module example.com/foo/bar\<newline>'' None"
  have "getModuleName ''proj'' enable_fails_world = getModuleName ''proj'' ?w"
    by (simp add: enable_fails_world_def getModuleName_def os_Open_def del: Join.simps)
  then show "getModuleName ''proj'' enable_fails_world = Inr ''bar''"
    by (simp only: getModuleName_bar)
  have oc: "outcome enable_fails_world [''go'', ''build'', ''-o'', ''proj/bar'', ''proj'']
              = Exited 0"
    by (simp add: enable_fails_world_def exits_def)
  have "Abs ''proj/bar'' enable_fails_world = Abs ''proj/bar'' ?w"
    by (simp add: enable_fails_world_def Abs_def)
  then have a: "Abs ''proj/bar'' enable_fails_world = Inr ''/home/dev/proj/bar''"
    by (simp only: Abs_manifest_world)
  have wd: "workdir enable_fails_world = Inr ''/home/dev''"
    by (simp add: enable_fails_world_def manifest_world_def)
  have dir: "dirError ''proj'' enable_fails_world = None"
    by (simp add: dirError_resolved wd)
  have "fst (Run [''go'', ''build'', ''-o'', ''proj/bar'', ''proj''] ''proj'' enable_fails_world)
      = None"
    by (simp only: Run_fst oc dir proc_outcome.case option.case simp_thms if_True)
  then show "fst (buildGoProject ''proj'' ''bar'' enable_fails_world) = Inr ''/home/dev/proj/bar''"
    by (simp only: buildGoProject_fst Join_proj_bar a option.case sum.case)
qed

theorem Execute_exit_status_witness:
  "exit_code (Execute (FlagError (OSError ''unknown flag: --now'')) (manifest_world [] None))
     = Some 1
   \<and> exit_code (Execute (Parsed False [''proj'']) (manifest_world [] None)) = None
   \<and> trace (Execute (Parsed False [''proj'']) (manifest_world [] None))
       = [LogErrorf ''Error: %v'' (Errorf ''module name not found in go.mod'' [])]
   \<and> exit_code (Execute (Parsed True [''proj'']) enable_fails_world) = None
   \<and> last (trace (Execute (Parsed True [''proj'']) enable_fails_world))
       = LogErrorf ''Failed to enable service: %v'' (ExitError 1)"
proof -
  let ?w = "manifest_world [] None"
  have start: "exit_code ?w = None" "trace ?w = []" "exit_code enable_fails_world = None"
    by (simp_all add: manifest_world_def enable_fails_world_def)
  note flag = Execute_exit_status
    [where cl = "FlagError (OSError ''unknown flag: --now'')" and w = ?w]
  note empty = Execute_exit_status
    [where cl = "Parsed False [''proj'']" and w = ?w and p = "''proj''" and install = False]
  note enable = Execute_exit_status
    [where cl = "Parsed True [''proj'']" and w = enable_fails_world and p = "''proj''"]
  have c1: "exit_code (Execute (FlagError (OSError ''unknown flag: --now'')) ?w) = Some 1"
    using conjunct1 [OF flag] by simp
  have c2: "exit_code (Execute (Parsed False [''proj'']) ?w) = None"
    using conjunct1 [OF empty] by (simp add: ExactArgs_def start)
  have c3: "trace (Execute (Parsed False [''proj'']) ?w)
       = [LogErrorf ''Error: %v'' (Errorf ''module name not found in go.mod'' [])]"
    using empty getModuleName_empty_manifest by (simp add: start)
  have c4: "exit_code (Execute (Parsed True [''proj'']) enable_fails_world) = None"
    using conjunct1 [OF enable] by (simp add: ExactArgs_def start)
  have steps: "getModuleName ''proj'' enable_fails_world = Inr ''bar''
      \<and> fst (buildGoProject ''proj'' ''bar'' enable_fails_world) = Inr ''/home/dev/proj/bar''
      \<and> (2::nat) < 4
      \<and> (\<forall>c\<in>set (take 2 (installCommands (Join [''proj'', ''bar'' @ ''.service'']) ''bar'')).
            runError (outcome enable_fails_world c) = None)
      \<and> runError (outcome enable_fails_world
            (installCommands (Join [''proj'', ''bar'' @ ''.service'']) ''bar'' ! 2))
          = Some (ExitError 1)"
    by (simp add: enable_fails_world_steps Join_proj_service installCommands_bar
        enable_fails_world_outcomes del: Join.simps)
  have "last (trace (Execute (Parsed True [''proj'']) enable_fails_world))
       = LogErrorf (installFailureMessages ! 2) (ExitError 1)"
    using enable steps by blast
  then have c5: "last (trace (Execute (Parsed True [''proj'']) enable_fails_world))
       = LogErrorf ''Failed to enable service: %v'' (ExitError 1)"
    by (simp add: installFailureMessages_def)
  show ?thesis
    by (intro conjI) (fact c1 c2 c3 c4 c5)+
qed

text \<open>
  Claim C8: the descriptor-generation step reports no error to its caller. It hands
  the text to \<open>os.WriteFile\<close>, drops the result and returns; it logs nothing and does
  not terminate the process. What the pipeline logs and runs does not depend on
  whether the service file can be written: once the build has succeeded, the write is
  attempted, the success message is logged and, if the flag is set, the installer
  runs.
\<close>

theorem generateServiceFile_error_discarded:
  "trace (runProjectSetup args (w\<lparr>unwritable := u\<rparr>)) = trace (runProjectSetup args w)
   \<and> exit_code (runProjectSetup args (w\<lparr>unwritable := u\<rparr>)) = exit_code (runProjectSetup args w)
   \<and> trace (generateServiceFile servicePath binaryPath serviceName w)
       = trace w @ [Write servicePath (serviceContent binaryPath serviceName w) 420]
   \<and> exit_code (generateServiceFile servicePath binaryPath serviceName w) = exit_code w
   \<and> (\<forall>name bin. getModuleName p w = Inr name \<and> fst (buildGoProject p name w) = Inr bin \<longrightarrow>
         trace (runProjectSetup (p # rest) w) = trace w @
           [Exec [''go'', ''build'', ''-o'', Join [p, name], p] p,
            Write (Join [p, name @ ''.service'']) (serviceContent bin name w) 420,
            LogInfof ''Service file created at: %v'' (Join [p, name @ ''.service''])] @
           (if installFlag w
            then trace (copyServiceToSystemd (Join [p, name @ ''.service'']) name
                         (w\<lparr>trace := []\<rparr>))
            else []))"
proof (intro conjI allI impI)
  show "trace (runProjectSetup args (w\<lparr>unwritable := u\<rparr>)) = trace (runProjectSetup args w)"
  proof (cases args)
    case Nil
    then show ?thesis
      by (simp add: runProjectSetup_def os_Exit_def)
  next
    case (Cons a rest)
    then show ?thesis
      by (simp add: runProjectSetup_trace copyServiceToSystemd_trace_unwritable
          del: Join.simps split: sum.split)
  qed
next
  show "exit_code (runProjectSetup args (w\<lparr>unwritable := u\<rparr>))
      = exit_code (runProjectSetup args w)"
  proof (cases args)
    case Nil
    then show ?thesis
      by (simp add: runProjectSetup_def os_Exit_def)
  next
    case (Cons a rest)
    then show ?thesis
      by (simp add: runProjectSetup_exit_code)
  qed
next
  show "trace (generateServiceFile servicePath binaryPath serviceName w)
       = trace w @ [Write servicePath (serviceContent binaryPath serviceName w) 420]"
    by (rule generateServiceFile_trace)
next
  show "exit_code (generateServiceFile servicePath binaryPath serviceName w) = exit_code w"
    by simp
next
  fix name bin
  assume "getModuleName p w = Inr name \<and> fst (buildGoProject p name w) = Inr bin"
  then show "trace (runProjectSetup (p # rest) w) = trace w @
           [Exec [''go'', ''build'', ''-o'', Join [p, name], p] p,
            Write (Join [p, name @ ''.service'']) (serviceContent bin name w) 420,
            LogInfof ''Service file created at: %v'' (Join [p, name @ ''.service''])] @
           (if installFlag w
            then trace (copyServiceToSystemd (Join [p, name @ ''.service'']) name
                         (w\<lparr>trace := []\<rparr>))
            else [])"
    by (simp add: runProjectSetup_trace del: Join.simps)
qed

theorem generateServiceFile_error_discarded_witness:
  "fst (os_WriteFile ''proj/bar.service''
          (serviceContent ''/home/dev/proj/bar'' ''bar'' read_only_world) 420 read_only_world)
     = Some (OSError ''permission denied'')
   \<and> trace (runProjectSetup [''proj''] read_only_world) =
       [Exec [''go'', ''build'', ''-o'', ''proj/bar'', ''proj''] ''proj'',
        Write ''proj/bar.service''
          (serviceContent ''/home/dev/proj/bar'' ''bar'' read_only_world) 420,
        LogInfof ''Service file created at: %v'' ''proj/bar.service'']"
proof -
  have fails: "fst (os_WriteFile ''proj/bar.service''
          (serviceContent ''/home/dev/proj/bar'' ''bar'' read_only_world) 420 read_only_world)
     = Some (OSError ''permission denied'')"
    by (simp add: os_WriteFile_def read_only_world_def)
  have steps: "getModuleName ''proj'' read_only_world = Inr ''bar''
      \<and> fst (buildGoProject ''proj'' ''bar'' read_only_world) = Inr ''/home/dev/proj/bar''"
    by (simp add: read_only_world_def getModuleName_bar buildGoProject_manifest_world
        del: Join.simps)
  have start: "trace read_only_world = []" "\<not> installFlag read_only_world"
    by (simp_all add: read_only_world_def manifest_world_def)
  have "trace (runProjectSetup (''proj'' # []) read_only_world) = trace read_only_world @
           [Exec [''go'', ''build'', ''-o'', Join [''proj'', ''bar''], ''proj''] ''proj'',
            Write (Join [''proj'', ''bar'' @ ''.service''])
              (serviceContent ''/home/dev/proj/bar'' ''bar'' read_only_world) 420,
            LogInfof ''Service file created at: %v'' (Join [''proj'', ''bar'' @ ''.service''])] @
           (if installFlag read_only_world
            then trace (copyServiceToSystemd (Join [''proj'', ''bar'' @ ''.service'']) ''bar''
                         (read_only_world\<lparr>trace := []\<rparr>))
            else [])"
    using generateServiceFile_error_discarded [where w = read_only_world and p = "''proj''"
        and rest = "[]"] steps
    by blast
  then have "trace (runProjectSetup [''proj''] read_only_world) =
       [Exec [''go'', ''build'', ''-o'', ''proj/bar'', ''proj''] ''proj'',
        Write ''proj/bar.service''
          (serviceContent ''/home/dev/proj/bar'' ''bar'' read_only_world) 420,
        LogInfof ''Service file created at: %v'' ''proj/bar.service'']"
    by (simp only: start Join_proj_bar Join_proj_service if_False append_Nil append_Nil2
        append_Cons)
  with fails show ?thesis
    by (rule conjI)
qed

end
